theory Spec2Isabelle
  imports Complex_Main "HOL-Library.Sublist"
begin

section \<open>Freight price prediction service: the \<open>predict\<close> endpoint of \<open>ml/api/main.py\<close>\<close>

text \<open>
  The endpoint receives one JSON object, checks it, builds the feature dictionary, selects
  the columns the loaded model was trained on and returns the rounded prediction. Every
  \<open>raise\<close> of the source is a value \<open>Inl e\<close> of the model; the \<open>try\<close> block and its two
  \<open>except\<close> clauses are modelled as they are written.
\<close>

subsection \<open>Python values\<close>

text \<open>
  A Python \<open>float\<close>. The finite values are modelled by the real number they stand for:
  the range of a binary64 is modelled (values too large become infinite or raise
  \<open>OverflowError\<close>), its 53-bit precision and the sign of zero are not.
\<close>

datatype pyfloat = Finite real | PosInf | NegInf | NaN

text \<open>
  What a JSON request body is parsed to. A string is a list of characters, each standing
  for one code point below 256.
\<close>

datatype json =
    JNull
  | JBool bool
  | JInt int
  | JFloat pyfloat
  | JStr string
  | JList "json list"
  | JObj "(string \<times> json) list"

text \<open>The values stored in the \<open>features\<close> dictionary: Python floats and the integers 0 and 1.\<close>

datatype pynum = FloatV pyfloat | IntV int

text \<open>
  The exceptions that can be in flight inside \<open>predict\<close>. \<open>HTTPException\<close> carries its
  \<open>status_code\<close> and \<open>detail\<close>; every other constructor carries the text that \<open>str(e)\<close>
  returns. \<open>ValueError s\<close> stands for any instance of \<open>ValueError\<close> or of one of its
  subclasses; \<open>HTTPException\<close> derives from \<open>Exception\<close> directly, as do the classes
  collected in \<open>OtherException\<close>.
\<close>

datatype pyexn =
    HTTPException nat string
  | ValueError string
  | TypeError string
  | KeyError string
  | OverflowError string
  | OtherException string

fun isinstance_ValueError :: "pyexn \<Rightarrow> bool" where
  "isinstance_ValueError (ValueError _) = True"
| "isinstance_ValueError _ = False"

subsection \<open>The loaded model and the libraries around it\<close>

text \<open>
  The module loads the model once and reads \<open>feature_names_in_\<close> from it. The regressor,
  and the texts that library exceptions print, are not code of this repository; they are
  parameters of the model:
  \<^item> \<open>feature_names\<close>: the column names the model was fitted on, in order;
  \<^item> \<open>model_predict\<close>: \<open>float(model.predict(input_data)[0])\<close> on the selected row, either
    the float or the exception raised on the way;
  \<^item> \<open>http_exception_str\<close>: what \<open>str\<close> returns on an \<open>HTTPException\<close> with the given status
    and detail (it differs between versions of the web framework);
  \<^item> \<open>key_error_str\<close>: what \<open>str\<close> returns on the \<open>KeyError\<close> that the column selection
    raises for the given missing columns.
\<close>

record env =
  feature_names :: "string list"
  model_predict :: "pynum list \<Rightarrow> pyexn + pyfloat"
  http_exception_str :: "nat \<Rightarrow> string \<Rightarrow> string"
  key_error_str :: "string list \<Rightarrow> string"

fun str :: "env \<Rightarrow> pyexn \<Rightarrow> string" where
  "str env (HTTPException status detail) = http_exception_str env status detail"
| "str env (ValueError s) = s"
| "str env (TypeError s) = s"
| "str env (KeyError s) = s"
| "str env (OverflowError s) = s"
| "str env (OtherException s) = s"

subsection \<open>Built-in \<open>repr\<close> of a string and of a list of strings\<close>

definition hex_digit :: "nat \<Rightarrow> char" where
  "hex_digit n = (''0123456789abcdef'') ! (n mod 16)"

definition printable :: "char \<Rightarrow> bool" where
  "printable c = (let n = (of_char c :: nat) in
     (32 \<le> n \<and> n < 127) \<or> (161 \<le> n \<and> n \<noteq> 173))"

definition repr_char :: "char \<Rightarrow> char \<Rightarrow> string" where
  "repr_char quote c =
    (if c = quote \<or> c = CHR 0x5C then [CHR 0x5C, c]
     else if c = CHR 0x09 then [CHR 0x5C, CHR ''t'']
     else if c = CHR 0x0A then [CHR 0x5C, CHR ''n'']
     else if c = CHR 0x0D then [CHR 0x5C, CHR ''r'']
     else if printable c then [c]
     else [CHR 0x5C, CHR ''x'', hex_digit (of_char c div 16), hex_digit (of_char c)])"

definition repr :: "string \<Rightarrow> string" where
  "repr s =
    (let quote = (if CHR 0x27 \<in> set s \<and> CHR 0x22 \<notin> set s then CHR 0x22 else CHR 0x27)
     in [quote] @ concat (map (repr_char quote) s) @ [quote])"

fun join :: "string \<Rightarrow> string list \<Rightarrow> string" where
  "join sep [] = []"
| "join sep [x] = x"
| "join sep (x # y # ys) = x @ sep @ join sep (y # ys)"

definition repr_list :: "string list \<Rightarrow> string" where
  "repr_list xs = ''['' @ join '', '' (map repr xs) @ '']''"

subsection \<open>Built-in \<open>float\<close>\<close>

definition overflow_threshold :: real where
  "overflow_threshold = 2 ^ 1024 - 2 ^ 970"

definition to_double :: "real \<Rightarrow> pyfloat" where
  "to_double r =
    (if overflow_threshold \<le> r then PosInf
     else if r \<le> - overflow_threshold then NegInf
     else Finite r)"

definition is_space :: "char \<Rightarrow> bool" where
  "is_space c = (let n = (of_char c :: nat) in (9 \<le> n \<and> n \<le> 13) \<or> n = 32 \<or> n = 133 \<or> n = 160)"

definition strip :: "string \<Rightarrow> string" where
  "strip s = rev (dropWhile is_space (rev (dropWhile is_space s)))"

definition is_digit :: "char \<Rightarrow> bool" where
  "is_digit c = (let n = (of_char c :: nat) in 48 \<le> n \<and> n \<le> 57)"

definition lower :: "char \<Rightarrow> char" where
  "lower c = (let n = (of_char c :: nat) in if 65 \<le> n \<and> n \<le> 90 then char_of (n + 32) else c)"

text \<open>\<open>digitpart ::= digit (["_"] digit)*\<close>\<close>

fun digitpart :: "string \<Rightarrow> bool" where
  "digitpart [] = False"
| "digitpart [c] = is_digit c"
| "digitpart (c # d # cs) =
     (is_digit c \<and> (if d = CHR ''_'' then digitpart cs else digitpart (d # cs)))"

definition digits_value :: "string \<Rightarrow> nat" where
  "digits_value s = foldl (\<lambda>a c. 10 * a + (of_char c - 48)) 0 (filter is_digit s)"

definition split_sign :: "string \<Rightarrow> bool \<times> string" where
  "split_sign s =
    (case s of
       [] \<Rightarrow> (False, [])
     | c # cs \<Rightarrow> if c = CHR ''-'' then (True, cs) else if c = CHR ''+'' then (False, cs) else (False, s))"

text \<open>\<open>number ::= [digitpart] "." digitpart | digitpart ["."]\<close>, as a non-negative real.\<close>

definition parse_number :: "string \<Rightarrow> real option" where
  "parse_number s =
    (let ip = takeWhile (\<lambda>c. c \<noteq> CHR ''.'') s;
         rest = dropWhile (\<lambda>c. c \<noteq> CHR ''.'') s
     in if rest = [] then (if digitpart ip then Some (of_nat (digits_value ip)) else None)
        else let fp = tl rest
             in if (ip = [] \<or> digitpart ip) \<and> (fp = [] \<or> digitpart fp) \<and> \<not> (ip = [] \<and> fp = [])
                then Some (of_nat (digits_value ip)
                           + of_nat (digits_value fp) / 10 ^ length (filter is_digit fp))
                else None)"

text \<open>\<open>exponent ::= ("e" | "E") [sign] digitpart\<close>; the argument starts after the letter.\<close>

definition parse_exponent :: "string \<Rightarrow> int option" where
  "parse_exponent s =
    (case split_sign s of
       (neg, ds) \<Rightarrow>
         if digitpart ds then Some (if neg then - int (digits_value ds) else int (digits_value ds))
         else None)"

definition scale10 :: "real \<Rightarrow> int \<Rightarrow> real" where
  "scale10 m e = (if 0 \<le> e then m * 10 ^ nat e else m / 10 ^ nat (- e))"

definition parse_floatnumber :: "string \<Rightarrow> real option" where
  "parse_floatnumber s =
    (let ms = takeWhile (\<lambda>c. lower c \<noteq> CHR ''e'') s;
         rest = dropWhile (\<lambda>c. lower c \<noteq> CHR ''e'') s
     in case parse_number ms of
          None \<Rightarrow> None
        | Some m \<Rightarrow>
            if rest = [] then Some m
            else (case parse_exponent (tl rest) of
                    None \<Rightarrow> None
                  | Some e \<Rightarrow> Some (scale10 m e)))"

text \<open>
  \<open>float(s)\<close> on a string: surrounding whitespace is stripped, then
  \<open>floatvalue ::= [sign] (floatnumber | infinity | nan)\<close>, letters in any case.
  \<open>None\<close> is the \<open>ValueError\<close>.
\<close>

definition str_to_float :: "string \<Rightarrow> pyfloat option" where
  "str_to_float s =
    (case split_sign (strip s) of
       (neg, body) \<Rightarrow>
         let low = map lower body
         in if low = ''inf'' \<or> low = ''infinity'' then Some (if neg then NegInf else PosInf)
            else if low = ''nan'' then Some NaN
            else (case parse_floatnumber body of
                    None \<Rightarrow> None
                  | Some r \<Rightarrow> Some (to_double (if neg then - r else r))))"

text \<open>The \<open>TypeError\<close> for an argument that is neither a string nor a number (the wording of
  Python 3.10 and later).\<close>

definition float_type_error :: "string \<Rightarrow> pyexn" where
  "float_type_error tyname =
     TypeError (''float() argument must be a string or a real number, not '' @ repr tyname)"

fun float :: "json \<Rightarrow> pyexn + pyfloat" where
  "float JNull = Inl (float_type_error ''NoneType'')"
| "float (JBool b) = Inr (Finite (if b then 1 else 0))"
| "float (JInt i) =
     (if \<bar>of_int i\<bar> < overflow_threshold then Inr (Finite (of_int i))
      else Inl (OverflowError ''int too large to convert to float''))"
| "float (JFloat x) = Inr x"
| "float (JStr s) =
     (case str_to_float s of
        Some x \<Rightarrow> Inr x
      | None \<Rightarrow> Inl (ValueError (''could not convert string to float: '' @ repr s)))"
| "float (JList xs) = Inl (float_type_error ''list'')"
| "float (JObj kvs) = Inl (float_type_error ''dict'')"

subsection \<open>Built-in \<open>round\<close> on a float\<close>

text \<open>
  \<open>round(x, ndigits)\<close> on a float: the multiple of \<open>10 ** -ndigits\<close> closest to \<open>x\<close>, the
  even one when two are equally close; an infinity or a NaN is returned as it is.
\<close>

definition round_half_even :: "real \<Rightarrow> int" where
  "round_half_even x =
    (let f = \<lfloor>x\<rfloor>; d = x - of_int f
     in if d < 1 / 2 then f else if 1 / 2 < d then f + 1 else if even f then f else f + 1)"

fun round_py :: "pyfloat \<Rightarrow> nat \<Rightarrow> pyfloat" where
  "round_py (Finite r) ndigits = Finite (of_int (round_half_even (r * 10 ^ ndigits)) / 10 ^ ndigits)"
| "round_py x ndigits = x"

subsection \<open>The request handler\<close>

text \<open>
  The request body is a dictionary from field names to JSON values. A subscript
  \<open>data[key]\<close> raises \<open>KeyError\<close> on an absent key.
\<close>

type_synonym request = "string \<rightharpoonup> json"

definition getitem :: "request \<Rightarrow> string \<Rightarrow> pyexn + json" where
  "getitem data key = (case data key of None \<Rightarrow> Inl (KeyError (repr key)) | Some v \<Rightarrow> Inr v)"

definition required_fields :: "string list" where
  "required_fields = [''distance_km'', ''weight_kg'', ''cargo_type'', ''urgency_days'']"

definition cargo_types :: "string list" where
  "cargo_types = [''general'', ''fragile'', ''perishable'']"

text \<open>
  The loop \<open>for field in required_fields: if field not in data: raise HTTPException(...)\<close>,
  over the fields still to be checked.
\<close>

fun check_required :: "string list \<Rightarrow> request \<Rightarrow> pyexn + unit" where
  "check_required [] data = Inr ()"
| "check_required (field # rest) data =
     (if data field = None
      then Inl (HTTPException 422 (''Missing required field: '' @ field))
      else check_required rest data)"

text \<open>\<open>cargo_type not in cargo_types\<close>: only a string compares equal to a string.\<close>

definition not_in_cargo_types :: "json \<Rightarrow> bool" where
  "not_in_cargo_types cargo_type = (cargo_type \<notin> set (map JStr cargo_types))"

definition flag :: "json \<Rightarrow> string \<Rightarrow> pynum" where
  "flag cargo_type name = IntV (if cargo_type = JStr name then 1 else 0)"

text \<open>
  The dictionary literal \<open>features\<close>: its entries are evaluated in the order written, so
  the first conversion that raises decides the exception.
\<close>

definition features :: "request \<Rightarrow> json \<Rightarrow> pyexn + (string \<times> pynum) list" where
  "features data cargo_type =
    (case getitem data ''distance_km'' of Inl e \<Rightarrow> Inl e | Inr dv \<Rightarrow>
     case float dv of Inl e \<Rightarrow> Inl e | Inr distance_km \<Rightarrow>
     case getitem data ''weight_kg'' of Inl e \<Rightarrow> Inl e | Inr wv \<Rightarrow>
     case float wv of Inl e \<Rightarrow> Inl e | Inr weight_kg \<Rightarrow>
     case getitem data ''urgency_days'' of Inl e \<Rightarrow> Inl e | Inr uv \<Rightarrow>
     case float uv of Inl e \<Rightarrow> Inl e | Inr urgency_days \<Rightarrow>
       Inr [(''distance_km'', FloatV distance_km),
            (''weight_kg'', FloatV weight_kg),
            (''urgency_days'', FloatV urgency_days),
            (''cargo_type_perishable'', flag cargo_type ''perishable''),
            (''cargo_type_fragile'', flag cargo_type ''fragile''),
            (''cargo_type_general'', flag cargo_type ''general'')])"

text \<open>
  \<open>pd.DataFrame([features])[feature_names]\<close>: the one row of the frame, with the columns
  named by \<open>feature_names\<close> in that order; \<open>KeyError\<close> when a name is not a column.
\<close>

definition select_columns :: "env \<Rightarrow> (string \<times> pynum) list \<Rightarrow> string list \<Rightarrow> pyexn + pynum list" where
  "select_columns env row names =
    (case those (map (map_of row) names) of
       Some selected \<Rightarrow> Inr selected
     | None \<Rightarrow> Inl (KeyError (key_error_str env (filter (\<lambda>n. map_of row n = None) names))))"

text \<open>The row handed to the model for a request that passed both checks.\<close>

definition input_data :: "env \<Rightarrow> request \<Rightarrow> json \<Rightarrow> pyexn + pynum list" where
  "input_data env data cargo_type =
    (case features data cargo_type of
       Inl e \<Rightarrow> Inl e
     | Inr row \<Rightarrow> select_columns env row (feature_names env))"

text \<open>The body of the \<open>try\<close> block.\<close>

definition try_block :: "env \<Rightarrow> request \<Rightarrow> pyexn + (string \<times> pyfloat) list" where
  "try_block env data =
    (case check_required required_fields data of Inl e \<Rightarrow> Inl e | Inr _ \<Rightarrow>
     case getitem data ''cargo_type'' of Inl e \<Rightarrow> Inl e | Inr cargo_type \<Rightarrow>
       if not_in_cargo_types cargo_type
       then Inl (HTTPException 422
                  (''Invalid cargo_type. Must be one of: '' @ repr_list cargo_types))
       else
         (case input_data env data cargo_type of Inl e \<Rightarrow> Inl e | Inr row \<Rightarrow>
          case model_predict env row of Inl e \<Rightarrow> Inl e | Inr price \<Rightarrow>
            Inr [(''predicted_price'', round_py price 2)]))"

text \<open>
  The two handlers, tried in order: \<open>except ValueError\<close>, then \<open>except Exception\<close>. Each
  raises a new \<open>HTTPException\<close>, which leaves the function.
\<close>

definition predict :: "env \<Rightarrow> request \<Rightarrow> pyexn + (string \<times> pyfloat) list" where
  "predict env data =
    (case try_block env data of
       Inr response \<Rightarrow> Inr response
     | Inl e \<Rightarrow>
         if isinstance_ValueError e
         then Inl (HTTPException 422 (''Invalid input format: '' @ str env e))
         else Inl (HTTPException 500 (str env e)))"

subsection \<open>A concrete model and request\<close>

text \<open>Decimal digits of a natural number, as \<open>str\<close> prints a status code.\<close>

fun str_nat :: "nat \<Rightarrow> string" where
  "str_nat n = (if n < 10 then [char_of (48 + n)] else str_nat (n div 10) @ [char_of (48 + n mod 10)])"

text \<open>
  A loaded model whose columns are in the order of the specification's example and whose
  regressor answers 123.4567 for every row; \<open>str\<close> of an \<open>HTTPException\<close> is
  \<open>"<status>: <detail>"\<close>, and the \<open>KeyError\<close> text lists the missing columns.
\<close>

definition example_env :: env where
  "example_env =
    \<lparr>feature_names = [''distance_km'', ''weight_kg'', ''urgency_days'',
                       ''cargo_type_perishable'', ''cargo_type_fragile'', ''cargo_type_general''],
     model_predict = (\<lambda>row. Inr (Finite 123.4567)),
     http_exception_str = (\<lambda>status detail. str_nat status @ '': '' @ detail),
     key_error_str = (\<lambda>missing. repr (repr_list missing @ '' not in index''))\<rparr>"

text \<open>\<open>{"distance_km": 500, "weight_kg": 2000, "cargo_type": "fragile", "urgency_days": 5}\<close>\<close>

definition example_request :: request where
  "example_request =
    [''distance_km'' \<mapsto> JInt 500, ''weight_kg'' \<mapsto> JInt 2000,
     ''cargo_type'' \<mapsto> JStr ''fragile'', ''urgency_days'' \<mapsto> JInt 5]"

text \<open>
  The same loaded model with a regressor that validates its input as the library does:
  a row holding an infinity is refused with a \<open>ValueError\<close>.
\<close>

definition validating_env :: env where
  "validating_env =
    example_env\<lparr>model_predict :=
      (\<lambda>row. if FloatV PosInf \<in> set row \<or> FloatV NegInf \<in> set row
             then Inl (ValueError ''Input X contains infinity or a value too large for dtype('float32').'')
             else Inr (Finite 123.4567))\<rparr>"

section \<open>Properties\<close>

subsection \<open>Evaluation helpers\<close>

lemma below_overflow_threshold:
  "r \<le> 10 ^ 12 \<Longrightarrow> r < overflow_threshold"
  "r \<le> 10 ^ 12 \<Longrightarrow> \<not> overflow_threshold \<le> r"
  "- (10 ^ 12) \<le> r \<Longrightarrow> \<not> r \<le> - overflow_threshold"
  by (simp_all add: overflow_threshold_def)

lemma repr_list_cargo_types:
  "repr_list cargo_types = ''['general', 'fragile', 'perishable']''"
  by (simp add: cargo_types_def repr_list_def repr_def repr_char_def printable_def Let_def)

lemma check_required_fields:
  "check_required required_fields data =
     (if data ''distance_km'' = None then Inl (HTTPException 422 ''Missing required field: distance_km'')
      else if data ''weight_kg'' = None then Inl (HTTPException 422 ''Missing required field: weight_kg'')
      else if data ''cargo_type'' = None then Inl (HTTPException 422 ''Missing required field: cargo_type'')
      else if data ''urgency_days'' = None then Inl (HTTPException 422 ''Missing required field: urgency_days'')
      else Inr ())"
  by (simp add: required_fields_def)

lemma not_in_cargo_types_iff:
  "not_in_cargo_types v \<longleftrightarrow> v \<noteq> JStr ''general'' \<and> v \<noteq> JStr ''fragile'' \<and> v \<noteq> JStr ''perishable''"
  by (auto simp: not_in_cargo_types_def cargo_types_def)

lemma float_abc: "float (JStr ''abc'') = Inl (ValueError (''could not convert string to float: 'abc'' @ [CHR 0x27]))"
  by (simp add: str_to_float_def strip_def is_space_def split_sign_def lower_def
      parse_floatnumber_def parse_number_def is_digit_def repr_def repr_char_def printable_def Let_def)

lemma float_small_ints:
  "float (JInt 500) = Inr (Finite 500)" "float (JInt 2000) = Inr (Finite 2000)" "float (JInt 5) = Inr (Finite 5)"
  by (simp_all add: below_overflow_threshold)

subsection \<open>Errors raised inside the \<open>try\<close> block\<close>

text \<open>
  Both checks raise an \<open>HTTPException\<close> with status 422 inside the \<open>try\<close> block. That
  class is not a \<open>ValueError\<close>, so the exception reaches \<open>except Exception\<close>, which
  raises a new \<open>HTTPException\<close> with status 500 whose detail is the text of the first one.
  The function therefore answers every request that fails one of the two checks with
  status 500, and it never answers with another error status than 422 or 500.
\<close>

lemma check_required_Inl:
  assumes "\<exists>field \<in> set names. data field = None"
  shows "\<exists>missing \<in> set names. data missing = None \<and>
     check_required names data = Inl (HTTPException 422 (''Missing required field: '' @ missing))"
  using assms by (induction names) auto

lemma any_missing_field_is_reported_as_500:
  assumes "\<exists>field \<in> set required_fields. data field = None"
  shows "\<exists>missing \<in> set required_fields. data missing = None \<and>
     predict env data =
       Inl (HTTPException 500 (http_exception_str env 422 (''Missing required field: '' @ missing)))"
proof -
  from check_required_Inl [OF assms] obtain missing where
    missing: "missing \<in> set required_fields" "data missing = None"
    and raised: "check_required required_fields data =
      Inl (HTTPException 422 (''Missing required field: '' @ missing))"
    by blast
  from raised have "predict env data =
      Inl (HTTPException 500 (http_exception_str env 422 (''Missing required field: '' @ missing)))"
    by (simp add: predict_def try_block_def)
  with missing show ?thesis by blast
qed

lemma any_invalid_cargo_type_is_reported_as_500:
  assumes "check_required required_fields data = Inr ()"
    and "data ''cargo_type'' = Some cargo_type"
    and "not_in_cargo_types cargo_type"
  shows "predict env data =
     Inl (HTTPException 500
        (http_exception_str env 422 ''Invalid cargo_type. Must be one of: ['general', 'fragile', 'perishable']''))"
  using assms by (simp add: predict_def try_block_def getitem_def repr_list_cargo_types)

lemma predict_status_codes:
  assumes "predict env data = Inl e"
  shows "\<exists>detail. e = HTTPException 422 detail \<or> e = HTTPException 500 detail"
  using assms by (auto simp: predict_def split: sum.splits if_splits)

text \<open>
  Claim C1. A request that lacks a required field is answered with status 422 and detail
  \<open>"Missing required field: <name>"\<close>. Evaluated on the request
  \<open>{"distance_km": 500, "cargo_type": "fragile", "urgency_days": 5}\<close>: the loop raises
  \<open>HTTPException(422, "Missing required field: weight_kg")\<close> inside the \<open>try\<close> block, the
  clause \<open>except Exception\<close> catches it, and the response that leaves the function has
  status 500 and the text of the caught exception as its detail, for every loaded model.
\<close>

theorem missing_weight_kg_is_reported_as_500:
  "predict env [''distance_km'' \<mapsto> JInt 500, ''cargo_type'' \<mapsto> JStr ''fragile'', ''urgency_days'' \<mapsto> JInt 5]
   = Inl (HTTPException 500 (http_exception_str env 422 ''Missing required field: weight_kg''))"
  by (simp add: predict_def try_block_def check_required_fields)

text \<open>
  Claim C2. A request with all four fields whose \<open>cargo_type\<close> is outside the closed set is
  answered with status 422 and a detail listing the three allowed values. Evaluated on the
  example request with \<open>cargo_type: "hazardous"\<close>: the 422 exception with that detail is
  raised, caught by \<open>except Exception\<close> and replaced by a response with status 500.
\<close>

theorem hazardous_cargo_type_is_reported_as_500:
  "predict env (example_request(''cargo_type'' \<mapsto> JStr ''hazardous''))
   = Inl (HTTPException 500
        (http_exception_str env 422 ''Invalid cargo_type. Must be one of: ['general', 'fragile', 'perishable']''))"
  by (simp add: predict_def try_block_def check_required_fields example_request_def getitem_def
      not_in_cargo_types_iff repr_list_cargo_types)

text \<open>
  Claim C9. When \<open>cargo_type\<close> is outside the closed set and a numeric field is not
  convertible, the response is the invalid-cargo_type error and not the invalid-format
  error. Evaluated on the example request with \<open>cargo_type: "hazardous"\<close> and
  \<open>distance_km: "abc"\<close>: the membership check does come first and no conversion is tried,
  but the invalid-cargo_type exception is caught by \<open>except Exception\<close>, so the response
  has status 500.
\<close>

theorem cargo_type_check_precedes_conversion:
  "predict env (example_request(''cargo_type'' \<mapsto> JStr ''hazardous'', ''distance_km'' \<mapsto> JStr ''abc''))
   = Inl (HTTPException 500
        (http_exception_str env 422 ''Invalid cargo_type. Must be one of: ['general', 'fragile', 'perishable']''))"
  by (simp add: predict_def try_block_def check_required_fields example_request_def getitem_def
      not_in_cargo_types_iff repr_list_cargo_types)

subsection \<open>Extra keys\<close>

text \<open>
  Claim C10. Two requests that agree on the four required fields (present with the same
  value, or absent in both) get the same response from the same loaded model, whatever
  other keys they carry.
\<close>

theorem extra_keys_are_ignored:
  assumes "\<forall>field \<in> set required_fields. d1 field = d2 field"
  shows "predict env d1 = predict env d2"
proof -
  from assms have eqs: "d1 ''distance_km'' = d2 ''distance_km''" "d1 ''weight_kg'' = d2 ''weight_kg''"
    "d1 ''cargo_type'' = d2 ''cargo_type''" "d1 ''urgency_days'' = d2 ''urgency_days''"
    by (simp_all add: required_fields_def)
  have chk: "check_required required_fields d1 = check_required required_fields d2"
    by (simp add: check_required_fields eqs)
  have get: "getitem d1 ''distance_km'' = getitem d2 ''distance_km''"
    "getitem d1 ''weight_kg'' = getitem d2 ''weight_kg''"
    "getitem d1 ''cargo_type'' = getitem d2 ''cargo_type''"
    "getitem d1 ''urgency_days'' = getitem d2 ''urgency_days''"
    by (simp_all add: getitem_def eqs)
  have "features d1 ct = features d2 ct" for ct
    unfolding features_def get ..
  then have inp: "input_data env d1 = input_data env d2"
    by (simp add: input_data_def fun_eq_iff)
  have "try_block env d1 = try_block env d2"
    unfolding try_block_def chk get inp ..
  then show ?thesis by (simp add: predict_def)
qed

theorem extra_keys_are_ignored_witness:
  "map (example_request(''note'' \<mapsto> JStr ''rush'', ''cargo_type_general'' \<mapsto> JInt 1)) required_fields
     = map example_request required_fields
   \<and> predict example_env (example_request(''note'' \<mapsto> JStr ''rush'', ''cargo_type_general'' \<mapsto> JInt 1))
     = predict example_env example_request"
proof (rule conjI)
  show "map (example_request(''note'' \<mapsto> JStr ''rush'', ''cargo_type_general'' \<mapsto> JInt 1)) required_fields
     = map example_request required_fields"
    by (simp add: required_fields_def)
  show "predict example_env (example_request(''note'' \<mapsto> JStr ''rush'', ''cargo_type_general'' \<mapsto> JInt 1))
     = predict example_env example_request"
    by (rule extra_keys_are_ignored) (simp add: required_fields_def)
qed

subsection \<open>Helpers for the handler\<close>

lemma try_block_validated:
  assumes "check_required required_fields data = Inr ()" "data ''cargo_type'' = Some cargo_type"
    "\<not> not_in_cargo_types cargo_type"
  shows "try_block env data =
    (case input_data env data cargo_type of
       Inl e \<Rightarrow> Inl e
     | Inr row \<Rightarrow>
        (case model_predict env row of
           Inl e \<Rightarrow> Inl e
         | Inr price \<Rightarrow> Inr [(''predicted_price'', round_py price 2)]))"
  using assms by (simp add: try_block_def getitem_def)

lemma example_request_checks:
  "check_required required_fields example_request = Inr ()"
  "example_request ''cargo_type'' = Some (JStr ''fragile'')"
  "\<not> not_in_cargo_types (JStr ''fragile'')"
  by (simp_all add: check_required_fields example_request_def not_in_cargo_types_iff)

lemma features_example_request:
  "features example_request (JStr ''fragile'') =
     Inr [(''distance_km'', FloatV (Finite 500)), (''weight_kg'', FloatV (Finite 2000)),
          (''urgency_days'', FloatV (Finite 5)), (''cargo_type_perishable'', IntV 0),
          (''cargo_type_fragile'', IntV 1), (''cargo_type_general'', IntV 0)]"
  by (simp add: features_def getitem_def example_request_def below_overflow_threshold flag_def)

subsection \<open>The row handed to the model\<close>

text \<open>
  Claim C4. When the model's columns are \<open>[distance_km, weight_kg, urgency_days,
  cargo_type_perishable, cargo_type_fragile, cargo_type_general]\<close>, the request
  \<open>{distance_km: 500, weight_kg: 2000, cargo_type: "fragile", urgency_days: 5}\<close> yields the
  row \<open>[500.0, 2000.0, 5.0, 0, 1, 0]\<close>, and that row is what the regressor is called on,
  whatever the regressor computes.
\<close>

theorem aligned_vector_of_example:
  assumes "feature_names env =
    [''distance_km'', ''weight_kg'', ''urgency_days'',
     ''cargo_type_perishable'', ''cargo_type_fragile'', ''cargo_type_general'']"
  shows "input_data env example_request (JStr ''fragile'') =
      Inr [FloatV (Finite 500), FloatV (Finite 2000), FloatV (Finite 5), IntV 0, IntV 1, IntV 0]
    \<and> try_block env example_request =
      (case model_predict env
              [FloatV (Finite 500), FloatV (Finite 2000), FloatV (Finite 5), IntV 0, IntV 1, IntV 0] of
         Inl e \<Rightarrow> Inl e
       | Inr price \<Rightarrow> Inr [(''predicted_price'', round_py price 2)])"
proof -
  have row: "input_data env example_request (JStr ''fragile'') =
      Inr [FloatV (Finite 500), FloatV (Finite 2000), FloatV (Finite 5), IntV 0, IntV 1, IntV 0]"
    by (simp add: input_data_def features_example_request select_columns_def assms)
  then show ?thesis
    by (simp add: try_block_validated [OF example_request_checks])
qed

lemma round_half_even_example: "round_half_even (1234567 / 100) = 12346"
  by (simp add: round_half_even_def)

lemma round_example: "round_py (Finite 123.4567) 2 = Finite 123.46"
  by (simp add: round_half_even_example)

theorem aligned_vector_of_example_witness:
  "feature_names example_env =
    [''distance_km'', ''weight_kg'', ''urgency_days'',
     ''cargo_type_perishable'', ''cargo_type_fragile'', ''cargo_type_general'']
   \<and> input_data example_env example_request (JStr ''fragile'') =
      Inr [FloatV (Finite 500), FloatV (Finite 2000), FloatV (Finite 5), IntV 0, IntV 1, IntV 0]
   \<and> try_block example_env example_request = Inr [(''predicted_price'', Finite 123.46)]"
proof -
  have h: "feature_names example_env =
    [''distance_km'', ''weight_kg'', ''urgency_days'',
     ''cargo_type_perishable'', ''cargo_type_fragile'', ''cargo_type_general'']"
    by (simp add: example_env_def)
  have m: "model_predict example_env row = Inr (Finite 123.4567)" for row
    by (simp add: example_env_def)
  from aligned_vector_of_example [OF h] show ?thesis
    by (simp add: h m round_half_even_example)
qed
text \<open>
  \<open>float\<close> of a JSON number is that number: a float is returned as it is, an integer
  that converts becomes the float of the same value.
\<close>

lemma float_preserves_numbers:
  "float (JFloat x) = Inr x"
  "float (JInt i) = Inr y \<Longrightarrow> y = Finite (of_int i)"
  by (auto split: if_splits)

lemma features_Inr:
  assumes "features data cargo_type = Inr row"
  shows "\<exists>dv wv uv d w u.
      data ''distance_km'' = Some dv \<and> float dv = Inr d \<and>
      data ''weight_kg'' = Some wv \<and> float wv = Inr w \<and>
      data ''urgency_days'' = Some uv \<and> float uv = Inr u \<and>
      row = [(''distance_km'', FloatV d), (''weight_kg'', FloatV w), (''urgency_days'', FloatV u),
             (''cargo_type_perishable'', flag cargo_type ''perishable''),
             (''cargo_type_fragile'', flag cargo_type ''fragile''),
             (''cargo_type_general'', flag cargo_type ''general'')]"
  using assms
  by (auto simp: features_def getitem_def split: option.splits sum.splits)

lemma flags_one_hot:
  assumes "cargo_type \<in> set (map JStr cargo_types)"
  shows "[flag cargo_type ''general'', flag cargo_type ''fragile'', flag cargo_type ''perishable'']
     \<in> {[IntV 1, IntV 0, IntV 0], [IntV 0, IntV 1, IntV 0], [IntV 0, IntV 0, IntV 1]}"
  using assms by (auto simp: cargo_types_def flag_def)

subsection \<open>The feature dictionary\<close>

text \<open>
  Claim C5. For a \<open>cargo_type\<close> in the closed set, the feature dictionary, once built, has
  exactly the six keys, holds \<open>float\<close> of the three continuous fields of the request, and
  exactly one of the flags \<open>cargo_type_general\<close>, \<open>cargo_type_fragile\<close>,
  \<open>cargo_type_perishable\<close> is 1 while the other two are 0.
\<close>

theorem features_one_hot:
  assumes valid: "cargo_type \<in> set (map JStr cargo_types)"
    and built: "features data cargo_type = Inr row"
  shows "\<exists>dv wv uv d w u.
      data ''distance_km'' = Some dv \<and> float dv = Inr d \<and>
      data ''weight_kg'' = Some wv \<and> float wv = Inr w \<and>
      data ''urgency_days'' = Some uv \<and> float uv = Inr u \<and>
      map fst row = [''distance_km'', ''weight_kg'', ''urgency_days'',
                     ''cargo_type_perishable'', ''cargo_type_fragile'', ''cargo_type_general''] \<and>
      length row = 6 \<and> distinct (map fst row) \<and>
      map_of row ''distance_km'' = Some (FloatV d) \<and>
      map_of row ''weight_kg'' = Some (FloatV w) \<and>
      map_of row ''urgency_days'' = Some (FloatV u) \<and>
      map (map_of row) [''cargo_type_general'', ''cargo_type_fragile'', ''cargo_type_perishable'']
        \<in> {[Some (IntV 1), Some (IntV 0), Some (IntV 0)],
            [Some (IntV 0), Some (IntV 1), Some (IntV 0)],
            [Some (IntV 0), Some (IntV 0), Some (IntV 1)]}"
proof -
  from features_Inr [OF built] obtain dv wv uv d w u where
    conv: "data ''distance_km'' = Some dv" "float dv = Inr d"
      "data ''weight_kg'' = Some wv" "float wv = Inr w"
      "data ''urgency_days'' = Some uv" "float uv = Inr u"
    and row: "row = [(''distance_km'', FloatV d), (''weight_kg'', FloatV w), (''urgency_days'', FloatV u),
             (''cargo_type_perishable'', flag cargo_type ''perishable''),
             (''cargo_type_fragile'', flag cargo_type ''fragile''),
             (''cargo_type_general'', flag cargo_type ''general'')]"
    by blast
  have flags: "map (map_of row) [''cargo_type_general'', ''cargo_type_fragile'', ''cargo_type_perishable'']
        \<in> {[Some (IntV 1), Some (IntV 0), Some (IntV 0)],
            [Some (IntV 0), Some (IntV 1), Some (IntV 0)],
            [Some (IntV 0), Some (IntV 0), Some (IntV 1)]}"
    using flags_one_hot [OF valid] by (simp add: row)
  have shape: "map fst row = [''distance_km'', ''weight_kg'', ''urgency_days'',
                     ''cargo_type_perishable'', ''cargo_type_fragile'', ''cargo_type_general'']"
    "length row = 6" "distinct (map fst row)"
    "map_of row ''distance_km'' = Some (FloatV d)"
    "map_of row ''weight_kg'' = Some (FloatV w)"
    "map_of row ''urgency_days'' = Some (FloatV u)"
    by (simp_all add: row)
  show ?thesis
    by (intro exI conjI) (rule conv shape flags)+
qed

theorem features_one_hot_witness:
  "JStr ''fragile'' \<in> set (map JStr cargo_types)
   \<and> features example_request (JStr ''fragile'') =
     Inr [(''distance_km'', FloatV (Finite 500)), (''weight_kg'', FloatV (Finite 2000)),
          (''urgency_days'', FloatV (Finite 5)), (''cargo_type_perishable'', IntV 0),
          (''cargo_type_fragile'', IntV 1), (''cargo_type_general'', IntV 0)]
   \<and> map (map_of [(''distance_km'', FloatV (Finite 500)), (''weight_kg'', FloatV (Finite 2000)),
          (''urgency_days'', FloatV (Finite 5)), (''cargo_type_perishable'', IntV 0),
          (''cargo_type_fragile'', IntV 1), (''cargo_type_general'', IntV 0)])
        [''cargo_type_general'', ''cargo_type_fragile'', ''cargo_type_perishable'']
       \<in> {[Some (IntV 1), Some (IntV 0), Some (IntV 0)],
            [Some (IntV 0), Some (IntV 1), Some (IntV 0)],
            [Some (IntV 0), Some (IntV 0), Some (IntV 1)]}"
proof -
  have valid: "JStr ''fragile'' \<in> set (map JStr cargo_types)"
    by (simp add: cargo_types_def)
  from features_one_hot [OF valid features_example_request] have
    "map (map_of [(''distance_km'', FloatV (Finite 500)), (''weight_kg'', FloatV (Finite 2000)),
          (''urgency_days'', FloatV (Finite 5)), (''cargo_type_perishable'', IntV 0),
          (''cargo_type_fragile'', IntV 1), (''cargo_type_general'', IntV 0)])
        [''cargo_type_general'', ''cargo_type_fragile'', ''cargo_type_perishable'']
       \<in> {[Some (IntV 1), Some (IntV 0), Some (IntV 0)],
            [Some (IntV 0), Some (IntV 1), Some (IntV 0)],
            [Some (IntV 0), Some (IntV 0), Some (IntV 1)]}"
    by (elim exE conjE) simp
  with valid features_example_request show ?thesis by (intro conjI)
qed




subsection \<open>The success response\<close>




subsection \<open>Conversion failures\<close>








text \<open>
  Claim C3, as stated, at a concrete request. The claim says that a numeric field that is
  not convertible to a real number is answered with status 422. For
  \<open>distance_km: null\<close> the conversion raises \<open>TypeError\<close>, which \<open>except ValueError\<close>
  does not catch: the response has status 500.
\<close>

theorem null_distance_is_reported_as_500:
  "float JNull = Inl (TypeError (''float() argument must be a string or a real number, not 'NoneType'' @ [CHR 0x27]))
   \<and> predict example_env (example_request(''distance_km'' \<mapsto> JNull)) =
     Inl (HTTPException 500
            (''float() argument must be a string or a real number, not 'NoneType'' @ [CHR 0x27]))"
proof -
  have conv: "float JNull =
      Inl (TypeError (''float() argument must be a string or a real number, not 'NoneType'' @ [CHR 0x27]))"
    by (simp add: float_type_error_def repr_def repr_char_def printable_def Let_def)
  have checks: "check_required required_fields (example_request(''distance_km'' \<mapsto> JNull)) = Inr ()"
    "(example_request(''distance_km'' \<mapsto> JNull)) ''cargo_type'' = Some (JStr ''fragile'')"
    by (simp_all add: check_required_fields example_request_def)
  have "features (example_request(''distance_km'' \<mapsto> JNull)) (JStr ''fragile'') =
      Inl (TypeError (''float() argument must be a string or a real number, not 'NoneType'' @ [CHR 0x27]))"
    by (simp add: features_def getitem_def conv del: float.simps)
  then have "try_block example_env (example_request(''distance_km'' \<mapsto> JNull)) =
      Inl (TypeError (''float() argument must be a string or a real number, not 'NoneType'' @ [CHR 0x27]))"
    unfolding try_block_validated [OF checks example_request_checks(3)] input_data_def
    by simp
  then have "predict example_env (example_request(''distance_km'' \<mapsto> JNull)) =
     Inl (HTTPException 500
            (''float() argument must be a string or a real number, not 'NoneType'' @ [CHR 0x27]))"
    by (simp add: predict_def)
  with conv show ?thesis by (intro conjI)
qed

text \<open>
  Claim C3, amended. For a request with all four fields and a \<open>cargo_type\<close> in the closed
  set: when the first of \<open>distance_km\<close>, \<open>weight_kg\<close>, \<open>urgency_days\<close> (in that order)
  whose conversion fails raises \<open>ValueError\<close> with text \<open>m\<close>, the response has status 422
  and detail \<open>"Invalid input format: " + m\<close>.
\<close>

theorem conversion_value_error_is_reported_as_422:
  assumes present: "data ''distance_km'' = Some dv" "data ''weight_kg'' = Some wv"
      "data ''cargo_type'' = Some cargo_type" "data ''urgency_days'' = Some uv"
    and valid: "cargo_type \<in> set (map JStr cargo_types)"
    and fails: "float dv = Inl (ValueError m)
      \<or> (\<exists>d. float dv = Inr d \<and> float wv = Inl (ValueError m))
      \<or> (\<exists>d w. float dv = Inr d \<and> float wv = Inr w \<and> float uv = Inl (ValueError m))"
  shows "predict env data = Inl (HTTPException 422 (''Invalid input format: '' @ m))"
proof -
  from present have checked: "check_required required_fields data = Inr ()"
    by (simp add: check_required_fields)
  from valid have member: "\<not> not_in_cargo_types cargo_type"
    by (simp add: not_in_cargo_types_def)
  from fails present have "features data cargo_type = Inl (ValueError m)"
    by (auto simp: features_def getitem_def)
  then have "try_block env data = Inl (ValueError m)"
    by (simp add: try_block_validated [OF checked present(3) member] input_data_def)
  then show ?thesis by (simp add: predict_def)
qed

theorem conversion_value_error_is_reported_as_422_witness:
  "float (JStr ''abc'') = Inl (ValueError (''could not convert string to float: 'abc'' @ [CHR 0x27]))
   \<and> predict example_env (example_request(''distance_km'' \<mapsto> JStr ''abc'')) =
     Inl (HTTPException 422
            (''Invalid input format: '' @ (''could not convert string to float: 'abc'' @ [CHR 0x27])))"
proof -
  have present: "(example_request(''distance_km'' \<mapsto> JStr ''abc'')) ''distance_km'' = Some (JStr ''abc'')"
    "(example_request(''distance_km'' \<mapsto> JStr ''abc'')) ''weight_kg'' = Some (JInt 2000)"
    "(example_request(''distance_km'' \<mapsto> JStr ''abc'')) ''cargo_type'' = Some (JStr ''fragile'')"
    "(example_request(''distance_km'' \<mapsto> JStr ''abc'')) ''urgency_days'' = Some (JInt 5)"
    by (simp_all add: example_request_def)
  have valid: "JStr ''fragile'' \<in> set (map JStr cargo_types)"
    by (simp add: cargo_types_def)
  have fails: "float (JStr ''abc'') = Inl (ValueError (''could not convert string to float: 'abc'' @ [CHR 0x27]))
      \<or> (\<exists>d. float (JStr ''abc'') = Inr d \<and>
            float (JInt 2000) = Inl (ValueError (''could not convert string to float: 'abc'' @ [CHR 0x27])))
      \<or> (\<exists>d w. float (JStr ''abc'') = Inr d \<and> float (JInt 2000) = Inr w \<and>
            float (JInt 5) = Inl (ValueError (''could not convert string to float: 'abc'' @ [CHR 0x27])))"
    by (rule disjI1) (rule float_abc)
  show ?thesis
    by (rule conjI [OF float_abc conversion_value_error_is_reported_as_422 [OF present valid fails]])
qed

subsection \<open>The text of a client error\<close>




subsection \<open>Failures after validation\<close>

lemma those_eq_None_iff: "those xs = None \<longleftrightarrow> None \<in> set xs"
  by (induction xs) (auto split: option.splits)

lemma select_columns_missing:
  assumes "\<exists>name \<in> set names. map_of row name = None"
  shows "select_columns env row names =
     Inl (KeyError (key_error_str env (filter (\<lambda>n. map_of row n = None) names)))"
proof -
  from assms have "None \<in> set (map (map_of row) names)"
    by (force simp: image_iff)
  then have "those (map (map_of row) names) = None"
    by (simp only: those_eq_None_iff)
  then show ?thesis by (simp add: select_columns_def)
qed

lemma features_inf:
  "features (example_request(''distance_km'' \<mapsto> JStr ''inf'')) (JStr ''fragile'') =
     Inr [(''distance_km'', FloatV PosInf), (''weight_kg'', FloatV (Finite 2000)),
          (''urgency_days'', FloatV (Finite 5)), (''cargo_type_perishable'', IntV 0),
          (''cargo_type_fragile'', IntV 1), (''cargo_type_general'', IntV 0)]"
proof -
  have "float (JStr ''inf'') = Inr PosInf"
    by (simp add: str_to_float_def strip_def is_space_def split_sign_def lower_def Let_def)
  then show ?thesis
    by (simp add: features_def getitem_def example_request_def below_overflow_threshold flag_def
        del: float.simps(5))
qed

text \<open>
  Claim C7, as stated, at a concrete request. The claim says that an exception raised by
  the regressor is answered with status 500. The request with \<open>distance_km: "inf"\<close>
  passes validation (\<open>float("inf")\<close> is a float); the validating regressor refuses the row
  with a \<open>ValueError\<close>, which \<open>except ValueError\<close> catches: the response has status 422.
\<close>

theorem model_value_error_is_reported_as_422:
  "features (example_request(''distance_km'' \<mapsto> JStr ''inf'')) (JStr ''fragile'') =
     Inr [(''distance_km'', FloatV PosInf), (''weight_kg'', FloatV (Finite 2000)),
          (''urgency_days'', FloatV (Finite 5)), (''cargo_type_perishable'', IntV 0),
          (''cargo_type_fragile'', IntV 1), (''cargo_type_general'', IntV 0)]
   \<and> model_predict validating_env
        [FloatV PosInf, FloatV (Finite 2000), FloatV (Finite 5), IntV 0, IntV 1, IntV 0] =
     Inl (ValueError ''Input X contains infinity or a value too large for dtype('float32').'')
   \<and> predict validating_env (example_request(''distance_km'' \<mapsto> JStr ''inf'')) =
     Inl (HTTPException 422
       ''Invalid input format: Input X contains infinity or a value too large for dtype('float32').'')"
proof -
  have checks: "check_required required_fields (example_request(''distance_km'' \<mapsto> JStr ''inf'')) = Inr ()"
    "(example_request(''distance_km'' \<mapsto> JStr ''inf'')) ''cargo_type'' = Some (JStr ''fragile'')"
    by (simp_all add: check_required_fields example_request_def)
  have model: "model_predict validating_env
        [FloatV PosInf, FloatV (Finite 2000), FloatV (Finite 5), IntV 0, IntV 1, IntV 0] =
     Inl (ValueError ''Input X contains infinity or a value too large for dtype('float32').'')"
    by (simp add: validating_env_def)
  have names: "feature_names validating_env =
    [''distance_km'', ''weight_kg'', ''urgency_days'',
     ''cargo_type_perishable'', ''cargo_type_fragile'', ''cargo_type_general'']"
    by (simp add: validating_env_def example_env_def)
  have "input_data validating_env (example_request(''distance_km'' \<mapsto> JStr ''inf'')) (JStr ''fragile'') =
      Inr [FloatV PosInf, FloatV (Finite 2000), FloatV (Finite 5), IntV 0, IntV 1, IntV 0]"
    unfolding input_data_def features_inf by (simp add: select_columns_def names)
  then have "try_block validating_env (example_request(''distance_km'' \<mapsto> JStr ''inf'')) =
      Inl (ValueError ''Input X contains infinity or a value too large for dtype('float32').'')"
    unfolding try_block_validated [OF checks example_request_checks(3)]
    by (simp add: model)
  then have "predict validating_env (example_request(''distance_km'' \<mapsto> JStr ''inf'')) =
     Inl (HTTPException 422
       ''Invalid input format: Input X contains infinity or a value too large for dtype('float32').'')"
    by (simp add: predict_def)
  with features_inf model show ?thesis by (intro conjI)
qed

text \<open>
  Claim C7, amended. For a request that passes validation (all fields present,
  \<open>cargo_type\<close> in the closed set, the feature dictionary built): when a name of
  \<open>feature_names\<close> is not a key of the feature dictionary, the response has status 500 and
  the text of the \<open>KeyError\<close> as detail; when the regressor raises an exception that is not
  a \<open>ValueError\<close>, the response has status 500 and the text of that exception as detail.
\<close>

theorem failure_after_validation_is_500:
  assumes checked: "check_required required_fields data = Inr ()"
      "data ''cargo_type'' = Some cargo_type" "\<not> not_in_cargo_types cargo_type"
    and built: "features data cargo_type = Inr row"
  shows "((\<exists>name \<in> set (feature_names env). map_of row name = None) \<longrightarrow>
            predict env data =
              Inl (HTTPException 500
                (key_error_str env (filter (\<lambda>n. map_of row n = None) (feature_names env)))))
      \<and> (\<forall>selected e.
            select_columns env row (feature_names env) = Inr selected \<and>
            model_predict env selected = Inl e \<and> \<not> isinstance_ValueError e \<longrightarrow>
            predict env data = Inl (HTTPException 500 (str env e)))"
proof (intro conjI impI allI)
  assume "\<exists>name \<in> set (feature_names env). map_of row name = None"
  then have "input_data env data cargo_type =
      Inl (KeyError (key_error_str env (filter (\<lambda>n. map_of row n = None) (feature_names env))))"
    by (simp add: input_data_def built select_columns_missing)
  then have "try_block env data =
      Inl (KeyError (key_error_str env (filter (\<lambda>n. map_of row n = None) (feature_names env))))"
    by (simp add: try_block_validated [OF checked])
  then show "predict env data =
      Inl (HTTPException 500
        (key_error_str env (filter (\<lambda>n. map_of row n = None) (feature_names env))))"
    by (simp add: predict_def)
next
  fix selected e
  assume fails: "select_columns env row (feature_names env) = Inr selected \<and>
      model_predict env selected = Inl e \<and> \<not> isinstance_ValueError e"
  then have "input_data env data cargo_type = Inr selected"
    by (simp add: input_data_def built)
  with fails have "try_block env data = Inl e"
    by (simp add: try_block_validated [OF checked])
  with fails show "predict env data = Inl (HTTPException 500 (str env e))"
    by (simp add: predict_def)
qed

theorem failure_after_validation_is_500_witness:
  "predict (example_env\<lparr>feature_names := [''distance_km'', ''cargo_type_hazardous'']\<rparr>) example_request =
     Inl (HTTPException 500 ([CHR 0x22] @ ''['cargo_type_hazardous'] not in index'' @ [CHR 0x22]))
   \<and> predict (example_env\<lparr>model_predict := (\<lambda>row. Inl (OtherException ''internal library error''))\<rparr>)
        example_request =
     Inl (HTTPException 500 ''internal library error'')"
proof (rule conjI)
  let ?drifted = "example_env\<lparr>feature_names := [''distance_km'', ''cargo_type_hazardous'']\<rparr>"
  let ?row = "[(''distance_km'', FloatV (Finite 500)), (''weight_kg'', FloatV (Finite 2000)),
          (''urgency_days'', FloatV (Finite 5)), (''cargo_type_perishable'', IntV 0),
          (''cargo_type_fragile'', IntV 1), (''cargo_type_general'', IntV 0)]"
  have drift: "\<exists>name \<in> set (feature_names ?drifted). map_of ?row name = None"
    by simp
  have msg: "key_error_str ?drifted (filter (\<lambda>n. map_of ?row n = None) (feature_names ?drifted)) =
      ([CHR 0x22] @ ''['cargo_type_hazardous'] not in index'' @ [CHR 0x22])"
    by (simp add: example_env_def repr_list_def repr_def repr_char_def printable_def Let_def)
  from failure_after_validation_is_500 [OF example_request_checks features_example_request,
      of ?drifted, THEN conjunct1, rule_format, OF drift]
  show "predict ?drifted example_request =
     Inl (HTTPException 500 ([CHR 0x22] @ ''['cargo_type_hazardous'] not in index'' @ [CHR 0x22]))"
    by (simp only: msg)
next
  let ?failing = "example_env\<lparr>model_predict := (\<lambda>row. Inl (OtherException ''internal library error''))\<rparr>"
  let ?row = "[(''distance_km'', FloatV (Finite 500)), (''weight_kg'', FloatV (Finite 2000)),
          (''urgency_days'', FloatV (Finite 5)), (''cargo_type_perishable'', IntV 0),
          (''cargo_type_fragile'', IntV 1), (''cargo_type_general'', IntV 0)]"
  let ?selected = "[FloatV (Finite 500), FloatV (Finite 2000), FloatV (Finite 5), IntV 0, IntV 1, IntV 0]"
  have fails: "select_columns ?failing ?row (feature_names ?failing) = Inr ?selected \<and>
      model_predict ?failing ?selected = Inl (OtherException ''internal library error'') \<and>
      \<not> isinstance_ValueError (OtherException ''internal library error'')"
    by (simp add: select_columns_def example_env_def)
  from failure_after_validation_is_500 [OF example_request_checks features_example_request,
      of ?failing, THEN conjunct2, rule_format, OF fails]
  show "predict ?failing example_request = Inl (HTTPException 500 ''internal library error'')"
    by simp
qed

end
